theory Spec2Isabelle
  imports Main "HOL-Library.AList"
begin

section \<open>JavaScript text\<close>

text \<open>
  A JavaScript string is a sequence of UTF-16 code units. A code unit is modelled as a
  natural number and a string as a list of them, so that every string the program can
  receive (also one with characters beyond Latin-1) is a value of the model.
  \<open>js\<close> turns an ASCII literal of the theory into such a string.
\<close>

type_synonym code_unit = nat
type_synonym jstring = "code_unit list"

definition js :: "string \<Rightarrow> jstring" where
  "js s = map of_char s"

text \<open>\<open>"\n"\<close>, the line break of the template literals.\<close>

definition nl :: jstring where
  "nl = [10]"

text \<open>\<open>starts_with p s\<close>: the text \<open>s\<close> begins with \<open>p\<close>.\<close>

fun starts_with :: "jstring \<Rightarrow> jstring \<Rightarrow> bool" where
  "starts_with [] s = True"
| "starts_with (p # ps) [] = False"
| "starts_with (p # ps) (c # cs) = (p = c \<and> starts_with ps cs)"

section \<open>The two regular expressions of the fetcher\<close>

text \<open>
  The source matches the answer against
  \<^verbatim>\<open>/```json\s*([\s\S]*?)\s*```/i\<close> and then against \<^verbatim>\<open>/({[\s\S]*})/\<close>.
  Both are built from single characters, character classes, a greedy star and a lazy
  star over a class, and one capture group. \<open>rx_item\<close> is that fragment of the
  pattern language and \<open>bt\<close> the backtracking matcher of ECMAScript on it: a greedy
  star tries the longer repetition first, a lazy star the shorter one, and the first
  alternative that lets the rest of the pattern match wins.
\<close>

datatype cls =
    One code_unit
  | NoCase code_unit code_unit
  | Space
  | AnyChar

text \<open>
  \<open>\s\<close> is the WhiteSpace and LineTerminator code units of ECMAScript:
  TAB, LF, VT, FF, CR, SP, NBSP, U+1680, U+2000 to U+200A, U+2028, U+2029, U+202F,
  U+205F, U+3000 and U+FEFF.
\<close>

definition is_space :: "code_unit \<Rightarrow> bool" where
  "is_space c \<longleftrightarrow>
     (9 \<le> c \<and> c \<le> 13) \<or> c = 32 \<or> c = 160 \<or> c = 5760 \<or> (8192 \<le> c \<and> c \<le> 8202) \<or>
     c = 8232 \<or> c = 8233 \<or> c = 8239 \<or> c = 8287 \<or> c = 12288 \<or> c = 65279"

text \<open>
  Under the \<open>i\<close> flag (without \<open>u\<close>) a pattern letter of ASCII matches exactly its
  lower-case and its upper-case code unit: a code unit of 128 or more is never
  canonicalised to an ASCII one. \<open>NoCase l u\<close> carries both.
\<close>

fun cls_match :: "cls \<Rightarrow> code_unit \<Rightarrow> bool" where
  "cls_match (One a) c = (c = a)"
| "cls_match (NoCase l u) c = (c = l \<or> c = u)"
| "cls_match Space c = is_space c"
| "cls_match AnyChar c = True"

datatype rx_item =
    Chr cls
  | Greedy cls
  | Lazy cls
  | GroupOpen
  | GroupClose

text \<open>
  The capture state: the text of group 1 once it is closed, and the text consumed
  since the group was opened (in reverse) while it is open.
\<close>

record capture =
  captured :: "jstring option"
  current :: "jstring option"

definition no_capture :: capture where
  "no_capture = \<lparr>captured = None, current = None\<rparr>"

definition consume :: "code_unit \<Rightarrow> capture \<Rightarrow> capture" where
  "consume c st = st\<lparr>current := map_option (\<lambda>acc. c # acc) (current st)\<rparr>"

definition group_open :: "capture \<Rightarrow> capture" where
  "group_open st = st\<lparr>current := Some []\<rparr>"

definition group_close :: "capture \<Rightarrow> capture" where
  "group_close st = \<lparr>captured = map_option rev (current st), current = None\<rparr>"

text \<open>
  \<open>bt p st s\<close> matches the pattern \<open>p\<close> at the start of \<open>s\<close>; \<open>Some st'\<close> is the
  capture state of the first successful alternative, \<open>None\<close> is failure.
\<close>

fun bt :: "rx_item list \<Rightarrow> capture \<Rightarrow> jstring \<Rightarrow> capture option" where
  "bt [] st s = Some st"
| "bt (Chr k # p) st [] = None"
| "bt (Chr k # p) st (c # cs) = (if cls_match k c then bt p (consume c st) cs else None)"
| "bt (Greedy k # p) st [] = bt p st []"
| "bt (Greedy k # p) st (c # cs) =
     (if cls_match k c
      then (case bt (Greedy k # p) (consume c st) cs of
              Some r \<Rightarrow> Some r
            | None \<Rightarrow> bt p st (c # cs))
      else bt p st (c # cs))"
| "bt (Lazy k # p) st [] = bt p st []"
| "bt (Lazy k # p) st (c # cs) =
     (case bt p st (c # cs) of
        Some r \<Rightarrow> Some r
      | None \<Rightarrow> (if cls_match k c then bt (Lazy k # p) (consume c st) cs else None))"
| "bt (GroupOpen # p) st s = bt p (group_open st) s"
| "bt (GroupClose # p) st s = bt p (group_close st) s"

text \<open>
  \<open>String.prototype.match\<close> with a regular expression that has no \<open>g\<close> flag: the
  match is tried at index 0, then 1, and so on up to the length of the string; the
  first index where it succeeds gives the result array, and \<open>null\<close> is returned when
  none does. Only element 1 of the array (the capture group) is read by the source, so
  the model returns it. \<open>None\<close> is \<open>null\<close>; the inner option is \<open>undefined\<close> for a
  group that did not take part in the match.
\<close>

fun rx_match :: "rx_item list \<Rightarrow> jstring \<Rightarrow> jstring option option" where
  "rx_match p [] = map_option captured (bt p no_capture [])"
| "rx_match p (c # cs) =
     (case bt p no_capture (c # cs) of
        Some st \<Rightarrow> Some (captured st)
      | None \<Rightarrow> rx_match p cs)"

text \<open>\<^verbatim>\<open>/```json\s*([\s\S]*?)\s*```/i\<close>\<close>

definition fence_rx :: "rx_item list" where
  "fence_rx =
     [Chr (One 96), Chr (One 96), Chr (One 96),
      Chr (NoCase 106 74), Chr (NoCase 115 83), Chr (NoCase 111 79), Chr (NoCase 110 78),
      Greedy Space, GroupOpen, Lazy AnyChar, GroupClose, Greedy Space,
      Chr (One 96), Chr (One 96), Chr (One 96)]"

text \<open>\<^verbatim>\<open>/({[\s\S]*})/\<close>\<close>

definition brace_rx :: "rx_item list" where
  "brace_rx = [GroupOpen, Chr (One 123), Greedy AnyChar, Chr (One 125), GroupClose]"

text \<open>
  \<^verbatim>\<open>const jsonMatch = contentBlock.match(fence) || contentBlock.match(brace);
  const content = jsonMatch ? jsonMatch[1] : "";\<close>
  A result array is truthy, \<open>null\<close> is falsy. Group 1 takes part in every match of
  both patterns; the \<open>undefined\<close> branch is kept for totality and converts to the
  text \<open>JSON.parse\<close> would see for it.
\<close>

definition jsonMatch :: "jstring \<Rightarrow> jstring option option" where
  "jsonMatch contentBlock =
     (case rx_match fence_rx contentBlock of
        Some m \<Rightarrow> Some m
      | None \<Rightarrow> rx_match brace_rx contentBlock)"

definition extract_content :: "jstring \<Rightarrow> jstring" where
  "extract_content contentBlock =
     (case jsonMatch contentBlock of
        None \<Rightarrow> []
      | Some None \<Rightarrow> js ''undefined''
      | Some (Some g) \<Rightarrow> g)"

section \<open>The captures, without backtracking\<close>

text \<open>
  What the two patterns capture, written as plain functions on the text. That the
  matcher returns exactly these is proved further down (\<open>fence_match_fenced\<close>,
  \<open>brace_match_span\<close>).

  \<open>opens_fence s\<close>: the text starts with three backticks and the letters
  \<open>json\<close> in any case. \<open>closes_fence s\<close>: the text is white space followed by
  three backticks. \<open>fence_body s\<close> is the shortest prefix of \<open>s\<close> after which a
  fence closes, and \<open>fenced s\<close> the body of the first opening fence (with the white
  space after the opening skipped) that is closed at all.
\<close>

definition opens_fence :: "jstring \<Rightarrow> bool" where
  "opens_fence s =
     (case s of
        b1 # b2 # b3 # l1 # l2 # l3 # l4 # rest \<Rightarrow>
          b1 = 96 \<and> b2 = 96 \<and> b3 = 96 \<and> (l1 = 106 \<or> l1 = 74) \<and> (l2 = 115 \<or> l2 = 83) \<and>
          (l3 = 111 \<or> l3 = 79) \<and> (l4 = 110 \<or> l4 = 78)
      | _ \<Rightarrow> False)"

definition closes_fence :: "jstring \<Rightarrow> bool" where
  "closes_fence s = starts_with [96, 96, 96] (dropWhile is_space s)"

fun fence_body :: "jstring \<Rightarrow> jstring option" where
  "fence_body [] = None"
| "fence_body (c # cs) =
     (if closes_fence (c # cs) then Some [] else map_option (Cons c) (fence_body cs))"

fun fenced :: "jstring \<Rightarrow> jstring option" where
  "fenced [] = None"
| "fenced (c # cs) =
     (if opens_fence (c # cs)
      then (case fence_body (dropWhile is_space (drop 6 cs)) of
              Some g \<Rightarrow> Some g
            | None \<Rightarrow> fenced cs)
      else fenced cs)"


text \<open>
  \<open>upto_last k s\<close> is \<open>s\<close> up to and including its last \<open>k\<close>. \<open>brace_span s\<close> is
  the text from the first opening brace of \<open>s\<close> to the last closing brace after it.
\<close>

fun upto_last :: "code_unit \<Rightarrow> jstring \<Rightarrow> jstring" where
  "upto_last k [] = []"
| "upto_last k (c # cs) =
     (if k \<in> set cs then c # upto_last k cs else if c = k then [c] else [])"

definition brace_span :: "jstring \<Rightarrow> jstring option" where
  "brace_span s =
     (case dropWhile (\<lambda>c. c \<noteq> 123) s of
        [] \<Rightarrow> None
      | b # u \<Rightarrow> if 125 \<in> set u then Some (b # upto_last 125 u) else None)"

section \<open>JavaScript values and \<open>JSON.parse\<close>\<close>

text \<open>
  The values the program handles: what \<open>JSON.parse\<close> and \<open>response.json()\<close> produce,
  and \<open>undefined\<close>, the value of a missing property. An object is the list of its own
  properties, each key once; \<open>AList.update\<close> is the assignment of a property (an
  existing key keeps its place, a new one goes to the end). The order in which
  JavaScript enumerates the keys (array indices first) is not kept: the program
  reads properties by key. A number is kept as the text of its literal: the program
  never computes with one.
\<close>

datatype js_value =
    JUndefined
  | JNull
  | JBool bool
  | JNumber jstring
  | JString jstring
  | JArray "js_value list"
  | JObject "(jstring \<times> js_value) list"

subsection \<open>Tokens\<close>

definition json_ws :: "code_unit \<Rightarrow> bool" where
  "json_ws c \<longleftrightarrow> c = 9 \<or> c = 10 \<or> c = 13 \<or> c = 32"

definition is_digit :: "code_unit \<Rightarrow> bool" where
  "is_digit c \<longleftrightarrow> 48 \<le> c \<and> c \<le> 57"

definition hex_digit :: "code_unit \<Rightarrow> nat option" where
  "hex_digit c =
     (if 48 \<le> c \<and> c \<le> 57 then Some (c - 48)
      else if 97 \<le> c \<and> c \<le> 102 then Some (c - 87)
      else if 65 \<le> c \<and> c \<le> 70 then Some (c - 55)
      else None)"

definition hex4 :: "code_unit \<Rightarrow> code_unit \<Rightarrow> code_unit \<Rightarrow> code_unit \<Rightarrow> code_unit option" where
  "hex4 a b c d =
     (case (hex_digit a, hex_digit b, hex_digit c, hex_digit d) of
        (Some h3, Some h2, Some h1, Some h0) \<Rightarrow> Some (((h3 * 16 + h2) * 16 + h1) * 16 + h0)
      | _ \<Rightarrow> None)"

text \<open>The single-character escapes: \<open>\"  \\  \/  \b  \f  \n  \r  \t\<close>.\<close>

definition escape :: "code_unit \<Rightarrow> code_unit option" where
  "escape e =
     (if e = 34 then Some 34
      else if e = 92 then Some 92
      else if e = 47 then Some 47
      else if e = 98 then Some 8
      else if e = 102 then Some 12
      else if e = 110 then Some 10
      else if e = 114 then Some 13
      else if e = 116 then Some 9
      else None)"

text \<open>
  The characters of a string literal after its opening quote: \<open>Some (s, rest)\<close> is
  the string's value and the input after the closing quote. A code unit below U+0020
  and an unknown escape are errors, and so is the end of the input.
\<close>

fun lex_string :: "jstring \<Rightarrow> jstring \<Rightarrow> (jstring \<times> jstring) option" where
  "lex_string acc [] = None"
| "lex_string acc (c # cs) =
     (if c = 34 then Some (rev acc, cs)
      else if c = 92 then
        (case cs of
           [] \<Rightarrow> None
         | e # r \<Rightarrow>
             if e = 117 then
               (case r of
                  h3 # h2 # h1 # h0 # r' \<Rightarrow>
                    (case hex4 h3 h2 h1 h0 of
                       Some u \<Rightarrow> lex_string (u # acc) r'
                     | None \<Rightarrow> None)
                | _ \<Rightarrow> None)
             else
               (case escape e of
                  Some x \<Rightarrow> lex_string (x # acc) r
                | None \<Rightarrow> None))
      else if c < 32 then None
      else lex_string (c # acc) cs)"

text \<open>
  A number literal: \<open>-?(0|[1-9][0-9]*)(\.[0-9]+)?([eE][+-]?[0-9]+)?\<close>, checked on the
  whole run of characters a number can contain. No token of JSON that may follow a
  number starts with one of these characters, so the run is the literal or an error.
\<close>

definition num_char :: "code_unit \<Rightarrow> bool" where
  "num_char c \<longleftrightarrow> is_digit c \<or> c = 43 \<or> c = 45 \<or> c = 46 \<or> c = 69 \<or> c = 101"

definition exponent_ok :: "jstring \<Rightarrow> bool" where
  "exponent_ok s =
     (case s of
        [] \<Rightarrow> True
      | e # r \<Rightarrow>
          (e = 69 \<or> e = 101) \<and>
          (let ds = (case r of [] \<Rightarrow> [] | g # r' \<Rightarrow> if g = 43 \<or> g = 45 then r' else r)
           in ds \<noteq> [] \<and> list_all is_digit ds))"

definition fraction_ok :: "jstring \<Rightarrow> bool" where
  "fraction_ok s =
     (case s of
        [] \<Rightarrow> True
      | d # r \<Rightarrow>
          if d = 46 then takeWhile is_digit r \<noteq> [] \<and> exponent_ok (dropWhile is_digit r)
          else exponent_ok s)"

definition valid_number :: "jstring \<Rightarrow> bool" where
  "valid_number s =
     (let u = (case s of [] \<Rightarrow> [] | m # r \<Rightarrow> if m = 45 then r else s);
          ip = takeWhile is_digit u
      in ip \<noteq> [] \<and> (hd ip = 48 \<longrightarrow> length ip = 1) \<and> fraction_ok (dropWhile is_digit u))"

datatype token =
    TLBrace
  | TRBrace
  | TLBracket
  | TRBracket
  | TComma
  | TColon
  | TString jstring
  | TAtom js_value

lemma lex_string_shorter:
  "lex_string acc cs = Some (s, rest) \<Longrightarrow> length rest < length cs"
proof (induction acc cs rule: lex_string.induct)
  case (1 acc)
  then show ?case by simp
next
  case (2 acc c cs)
  show ?case
  proof (cases "c = 34")
    case True
    with 2(4) show ?thesis by simp
  next
    case quote: False
    show ?thesis
    proof (cases "c = 92")
      case False
      with quote 2(4) have "\<not> c < 32" and "lex_string (c # acc) cs = Some (s, rest)"
        by (auto split: if_splits)
      with 2(3) quote False show ?thesis by fastforce
    next
      case True
      then obtain e r where cs: "cs = e # r"
        using 2(4) quote by (cases cs) auto
      show ?thesis
      proof (cases "e = 117")
        case False
        then obtain x where "escape e = Some x" "lex_string (x # acc) r = Some (s, rest)"
          using 2(4) quote True cs by (auto split: option.splits)
        with 2(2)[OF quote True cs False] have "length rest < length r" by simp
        with cs show ?thesis by simp
      next
        case u: True
        then obtain h3 h2 h1 h0 r' v where r: "r = h3 # h2 # h1 # h0 # r'"
          and h: "hex4 h3 h2 h1 h0 = Some v"
          and rec: "lex_string (v # acc) r' = Some (s, rest)"
          using 2(4) quote True cs by (auto split: list.splits option.splits)
        from 2(1)[OF quote True cs u] r h rec have "length rest < length r'" by simp
        with cs r show ?thesis by simp
      qed
    qed
  qed
qed

function lex :: "jstring \<Rightarrow> token list option" where
  "lex [] = Some []"
| "lex (c # cs) =
     (if json_ws c then lex cs
      else if c = 123 then map_option (Cons TLBrace) (lex cs)
      else if c = 125 then map_option (Cons TRBrace) (lex cs)
      else if c = 91 then map_option (Cons TLBracket) (lex cs)
      else if c = 93 then map_option (Cons TRBracket) (lex cs)
      else if c = 44 then map_option (Cons TComma) (lex cs)
      else if c = 58 then map_option (Cons TColon) (lex cs)
      else if c = 34 then
        (case lex_string [] cs of
           None \<Rightarrow> None
         | Some (s, rest) \<Rightarrow> map_option (Cons (TString s)) (lex rest))
      else if c = 45 \<or> is_digit c then
        (if valid_number (c # takeWhile num_char cs)
         then map_option (Cons (TAtom (JNumber (c # takeWhile num_char cs))))
                (lex (dropWhile num_char cs))
         else None)
      else if starts_with (js ''null'') (c # cs) then
        map_option (Cons (TAtom JNull)) (lex (drop 3 cs))
      else if starts_with (js ''true'') (c # cs) then
        map_option (Cons (TAtom (JBool True))) (lex (drop 3 cs))
      else if starts_with (js ''false'') (c # cs) then
        map_option (Cons (TAtom (JBool False))) (lex (drop 4 cs))
      else None)"
  by pat_completeness auto
termination
proof (relation "measure length")
  show "wf (measure length)" by simp
next
  fix c cs x2 x y
  assume "lex_string [] cs = Some x2" "(x, y) = x2"
  then have "lex_string [] cs = Some (x, y)" by simp
  from lex_string_shorter[OF this] show "(y, c # cs) \<in> measure length" by simp
next
  fix c :: code_unit and cs :: jstring
  have "length (dropWhile num_char cs) \<le> length cs" by (rule length_dropWhile_le)
  then show "(dropWhile num_char cs, c # cs) \<in> measure length" by simp
qed simp_all

subsection \<open>The grammar, as a stack machine over the tokens\<close>

text \<open>
  One frame for each array or object that is open, holding what has been read of it
  and what may come next.
\<close>

datatype frame =
    ArrOpen
  | ArrComma "js_value list"
  | ArrVal "js_value list"
  | ObjOpen
  | ObjComma "(jstring \<times> js_value) list"
  | ObjKey "(jstring \<times> js_value) list" jstring
  | ObjColon "(jstring \<times> js_value) list" jstring
  | ObjVal "(jstring \<times> js_value) list"

datatype pstate =
    Parsing "frame list"
  | Done js_value

text \<open>
  A complete value goes to the frame that waits for one; with no frame open it is the
  value of the whole text. A member whose key is already there replaces its value, as
  in \<open>JSON.parse\<close>.
\<close>

fun deliver :: "js_value \<Rightarrow> frame list \<Rightarrow> pstate option" where
  "deliver v [] = Some (Done v)"
| "deliver v (ArrOpen # st) = Some (Parsing (ArrVal [v] # st))"
| "deliver v (ArrComma es # st) = Some (Parsing (ArrVal (es @ [v]) # st))"
| "deliver v (ObjColon ms k # st) = Some (Parsing (ObjVal (AList.update k v ms) # st))"
| "deliver v (f # st) = None"

fun wants_value :: "frame list \<Rightarrow> bool" where
  "wants_value [] = True"
| "wants_value (ArrOpen # st) = True"
| "wants_value (ArrComma es # st) = True"
| "wants_value (ObjColon ms k # st) = True"
| "wants_value (f # st) = False"

fun step :: "pstate \<Rightarrow> token \<Rightarrow> pstate option" where
  "step (Done v) t = None"
| "step (Parsing st) (TAtom v) = deliver v st"
| "step (Parsing (ObjOpen # st)) (TString s) = Some (Parsing (ObjKey [] s # st))"
| "step (Parsing (ObjComma ms # st)) (TString s) = Some (Parsing (ObjKey ms s # st))"
| "step (Parsing st) (TString s) = deliver (JString s) st"
| "step (Parsing st) TLBracket = (if wants_value st then Some (Parsing (ArrOpen # st)) else None)"
| "step (Parsing st) TLBrace = (if wants_value st then Some (Parsing (ObjOpen # st)) else None)"
| "step (Parsing (ArrOpen # st)) TRBracket = deliver (JArray []) st"
| "step (Parsing (ArrVal es # st)) TRBracket = deliver (JArray es) st"
| "step (Parsing (ObjOpen # st)) TRBrace = deliver (JObject []) st"
| "step (Parsing (ObjVal ms # st)) TRBrace = deliver (JObject ms) st"
| "step (Parsing (ArrVal es # st)) TComma = Some (Parsing (ArrComma es # st))"
| "step (Parsing (ObjVal ms # st)) TComma = Some (Parsing (ObjComma ms # st))"
| "step (Parsing (ObjKey ms k # st)) TColon = Some (Parsing (ObjColon ms k # st))"
| "step (Parsing st) t = None"

fun parse_tokens :: "pstate \<Rightarrow> token list \<Rightarrow> pstate option" where
  "parse_tokens q [] = Some q"
| "parse_tokens q (t # ts) = (case step q t of None \<Rightarrow> None | Some q' \<Rightarrow> parse_tokens q' ts)"

text \<open>\<open>JSON.parse(text)\<close>: \<open>None\<close> is the \<open>SyntaxError\<close> it throws.\<close>

definition JSON_parse :: "jstring \<Rightarrow> js_value option" where
  "JSON_parse s =
     (case lex s of
        None \<Rightarrow> None
      | Some ts \<Rightarrow>
          (case parse_tokens (Parsing []) ts of
             Some (Done v) \<Rightarrow> Some v
           | _ \<Rightarrow> None))"

section \<open>Property access and object spread\<close>

text \<open>
  What a rejected promise or a \<open>throw\<close> carries: an \<open>Error\<close> the source builds with
  its message, the \<open>TypeError\<close> of a property read on \<open>undefined\<close> or \<open>null\<close> and of a
  call of something that is no function, the \<open>SyntaxError\<close> of \<open>JSON.parse\<close>, and the
  rejection of an operation of the platform or of the cache, with its reason.
\<close>

datatype js_error =
    Error jstring
  | TypeError
  | SyntaxError
  | Rejected jstring

text \<open>
  \<open>v.k\<close> for the property names the source reads (\<open>choices\<close>, \<open>message\<close>,
  \<open>content\<close>, \<open>citations\<close>, \<open>images\<close>): none of them is inherited from a prototype, so
  only an object can have one, as an own property.
\<close>

fun member :: "js_value \<Rightarrow> jstring \<Rightarrow> js_error + js_value" where
  "member JUndefined k = Inl TypeError"
| "member JNull k = Inl TypeError"
| "member (JObject ps) k = Inr (case map_of ps k of None \<Rightarrow> JUndefined | Some v \<Rightarrow> v)"
| "member v k = Inr JUndefined"

text \<open>\<open>v[0]\<close>: the first element of an array, the first code unit of a string.\<close>

fun index0 :: "js_value \<Rightarrow> js_error + js_value" where
  "index0 JUndefined = Inl TypeError"
| "index0 JNull = Inl TypeError"
| "index0 (JArray xs) = Inr (case xs of [] \<Rightarrow> JUndefined | x # _ \<Rightarrow> x)"
| "index0 (JString s) = Inr (case s of [] \<Rightarrow> JUndefined | c # _ \<Rightarrow> JString [c])"
| "index0 (JObject ps) = Inr (case map_of ps (js ''0'') of None \<Rightarrow> JUndefined | Some v \<Rightarrow> v)"
| "index0 v = Inr JUndefined"

text \<open>The decimal text of an array index, the key of an element.\<close>

fun index_key :: "nat \<Rightarrow> jstring" where
  "index_key n = (if n < 10 then [48 + n] else index_key (n div 10) @ [48 + n mod 10])"

declare index_key.simps [simp del]

text \<open>
  The own enumerable properties that \<open>{...v}\<close> copies: those of an object, the
  elements of an array and the code units of a string under their indices, and
  nothing for a number, a boolean, \<open>null\<close> or \<open>undefined\<close>.
\<close>

fun own_properties :: "js_value \<Rightarrow> (jstring \<times> js_value) list" where
  "own_properties (JObject ps) = ps"
| "own_properties (JArray xs) = zip (map index_key [0..<length xs]) xs"
| "own_properties (JString s) = zip (map index_key [0..<length s]) (map (\<lambda>c. JString [c]) s)"
| "own_properties v = []"

section \<open>The platform\<close>

text \<open>
  The record the fetcher returns and the cache stores (\<open>PerplexityInsights\<close>) is a
  JavaScript object: the list of its properties.
\<close>

type_synonym insights = "(jstring \<times> js_value) list"

text \<open>
  The arguments of both functions. \<open>name\<close> and \<open>signal\<close> are optional; a signal is
  the caller's \<open>AbortSignal\<close> object, named by a reference, whose \<open>aborted\<close> flag is
  read from the world at the moment of the test.
\<close>

record args =
  address :: jstring
  name :: "jstring option"
  signal :: "nat option"

record request_body =
  model :: jstring
  temperature :: jstring
  return_images :: bool
  search_context_size :: jstring
  messages :: "(jstring \<times> jstring) list"

record request =
  url :: jstring
  http_method :: jstring
  content_type :: jstring
  authorization :: jstring
  body :: request_body
  request_signal :: "nat option"

record response =
  ok :: bool
  statusText :: jstring
  response_id :: nat

text \<open>
  Everything outside the two functions, over a state \<open>'w\<close> of the outside world:
  the environment variables, the flag of an abort signal, \<open>fetch\<close>,
  \<open>response.json()\<close>, \<open>String.prototype.toLowerCase\<close>, and the two functions of
  \<open>@/lib/cache\<close>, which are imported by the source and not part of it. Each awaited
  operation returns its outcome and the world after it: while the function waits,
  the world moves on, and the caller may abort the signal.
\<close>

record 'w platform =
  env_var :: "'w \<Rightarrow> jstring \<Rightarrow> jstring option"
  signal_aborted :: "'w \<Rightarrow> nat \<Rightarrow> bool"
  toLowerCase :: "jstring \<Rightarrow> jstring"
  http_fetch :: "request \<Rightarrow> 'w \<Rightarrow> (js_error + response) \<times> 'w"
  response_json :: "response \<Rightarrow> 'w \<Rightarrow> (js_error + js_value) \<times> 'w"
  fetchPerplexityInsightsFromCache :: "jstring \<Rightarrow> 'w \<Rightarrow> (js_error + insights option) \<times> 'w"
  savePerplexityInsightsToCache :: "jstring \<Rightarrow> insights \<Rightarrow> 'w \<Rightarrow> (js_error + unit) \<times> 'w"

text \<open>
  What an invocation did, in order: the network call with its request, the read of
  the response body, the cache read with its key, the cache write with its key and
  value. A run is the world together with this trace.
\<close>

datatype event =
    HttpFetch request
  | ReadBody response
  | CacheRead jstring
  | CacheWrite jstring insights

record 'w run =
  world :: 'w
  trace :: "event list"

definition record_event :: "event \<Rightarrow> 'w \<Rightarrow> 'w run \<Rightarrow> 'w run" where
  "record_event e w r = \<lparr>world = w, trace = trace r @ [e]\<rparr>"

fun is_cache_read :: "event \<Rightarrow> bool" where
  "is_cache_read (CacheRead k) = True"
| "is_cache_read e = False"

fun is_cache_write :: "event \<Rightarrow> bool" where
  "is_cache_write (CacheWrite k v) = True"
| "is_cache_write e = False"

section \<open>\<open>fetchPerplexityInsights\<close>\<close>

text \<open>\<open>signal?.aborted\<close>: \<open>undefined\<close>, which is falsy, without a signal.\<close>

definition aborted :: "'w platform \<Rightarrow> nat option \<Rightarrow> 'w \<Rightarrow> bool" where
  "aborted P sg w = (case sg of None \<Rightarrow> False | Some ref \<Rightarrow> signal_aborted P w ref)"

text \<open>
  \<open>v || d\<close> on an optional string: \<open>undefined\<close> and the empty string are falsy.
\<close>

definition or_default :: "jstring option \<Rightarrow> jstring \<Rightarrow> jstring" where
  "or_default v d = (case v of None \<Rightarrow> d | Some s \<Rightarrow> if s = [] then d else s)"

text \<open>The template literal of the prompt, line by line.\<close>

definition prompt :: "jstring \<Rightarrow> jstring option \<Rightarrow> jstring" where
  \<open>prompt addr nm =
     (let place = (case nm of
                     None \<Rightarrow> js ''address''
                   | Some n \<Rightarrow>
                       if n = [] then js ''address''
                       else js ''location known as "'' @ n @ js ''"'');
          known_as = (case nm of
                        None \<Rightarrow> []
                      | Some n \<Rightarrow>
                          if n = [] then []
                          else js '' (known as "'' @ n @ js ''")'')
      in nl @ concat (map (\<lambda>l. l @ nl)
       [js ''Task: Find information about a children's playground at or near the specified '' @ place @ js ''.'',
        [],
        js ''Location Criteria:'',
        js ''- The playground must be located at one of the following:'',
        js ''  - Precisely at the address: '' @ addr @ known_as,
        js ''  - Within a park, recreation center, community center, school grounds, or public space at this exact address'',
        js ''  - Part of a sports complex or facility at this address'',
        js ''- If no playground is found at the exact address, check for playgrounds within a 0.1-mile radius, but only include them if they are clearly associated with a named park or facility.'',
        [],
        js ''Strictness:'',
        js ''- Focus strictly on playgrounds meeting the location criteria.'',
        js ''- If no playground is found with high confidence, return the 'not found' structure.'',
        js ''- Do not include information about playgrounds at different addresses unless they are within the 0.1-mile radius and clearly relevant.'',
        [],
        js ''Image Requirements:'',
        js ''- Return images only if they depict the actual playground, its equipment (e.g., slides, swings, climbing structures), or the immediate playground setting.'',
        js ''- Exclude irrelevant images such as generic parks, landscapes, or unrelated facilities.'',
        js ''- If no relevant images are available, return an empty image array.'',
        [],
        js ''Desired Output Format:'',
        js ''Return a JSON object with the following fields:'',
        js ''{'',
        js ''  "name": "string", // The name of the playground or the facility/park containing it (e.g., "Sunset Park Playground")'',
        js ''  "description": "string", // A concise 2-sentence description of the playground, focusing on key features (e.g., types of equipment, age suitability, safety features, shade availability, or atmosphere)'',
        js ''  "features": ["string"], // A list of specific playground features, using OpenStreetMap playground tags (e.g., "slide", "swing", "climbing_frame", "sandpit", "seesaw"). Refer to https://wiki.openstreetmap.org/wiki/Key:playground for valid tags'',
        js ''  "parking": "string" // A brief description of nearby parking options (e.g., "Street parking available nearby" or "Dedicated lot at park entrance")'',
        js ''}'',
        [],
        js ''If no playground is found with high confidence, return:'',
        js ''{'',
        js ''  "name": null,'',
        js ''  "description": null,'',
        js ''  "features": null,'',
        js ''  "parking": null'',
        js ''}'',
        [],
        js ''Return only the valid JSON object without any additional text or markdown.'']))\<close>

text \<open>
  The request of the source. \<open>temperature\<close> holds the text that \<open>parseFloat\<close> is
  given: the floating-point number it denotes is not computed here.
\<close>

definition requestBody :: "'w platform \<Rightarrow> 'w \<Rightarrow> args \<Rightarrow> request_body" where
  "requestBody P w a =
     \<lparr>model = toLowerCase P (or_default (env_var P w (js ''PERPLEXITY_MODEL'')) (js ''sonar'')),
      temperature = or_default (env_var P w (js ''PERPLEXITY_TEMPERATURE'')) (js ''0.17''),
      return_images = True,
      search_context_size =
        or_default (env_var P w (js ''PERPLEXITY_SEARCH_CONTEXT_SIZE'')) (js ''low''),
      messages = [(js ''user'', prompt (address a) (name a))]\<rparr>"

definition build_request :: "'w platform \<Rightarrow> 'w \<Rightarrow> jstring \<Rightarrow> args \<Rightarrow> request" where
  "build_request P w apiKey a =
     \<lparr>url = js ''https://api.perplexity.ai/chat/completions'',
      http_method = js ''POST'',
      content_type = js ''application/json'',
      authorization = js ''Bearer '' @ apiKey,
      body = requestBody P w a,
      request_signal = signal a\<rparr>"

text \<open>
  From \<open>data\<close> to the returned record:
  \<^verbatim>\<open>const contentBlock = data.choices[0].message.content;\<close>, the two matches,
  \<^verbatim>\<open>{...JSON.parse(content), sources: data.citations, images: data.images}\<close>.
  \<open>match\<close> is a method of strings only: on any other value the call is a
  \<open>TypeError\<close>.
\<close>

definition contentBlock :: "js_value \<Rightarrow> js_error + js_value" where
  "contentBlock data =
     (case member data (js ''choices'') of
        Inl e \<Rightarrow> Inl e
      | Inr choices \<Rightarrow>
          (case index0 choices of
             Inl e \<Rightarrow> Inl e
           | Inr choice \<Rightarrow>
               (case member choice (js ''message'') of
                  Inl e \<Rightarrow> Inl e
                | Inr message \<Rightarrow> member message (js ''content''))))"

definition augment :: "js_value \<Rightarrow> js_value \<Rightarrow> js_error + insights" where
  "augment parsed data =
     (case member data (js ''citations'') of
        Inl e \<Rightarrow> Inl e
      | Inr citations \<Rightarrow>
          (case member data (js ''images'') of
             Inl e \<Rightarrow> Inl e
           | Inr images \<Rightarrow>
               Inr (AList.update (js ''images'') images
                     (AList.update (js ''sources'') citations (own_properties parsed)))))"

definition parse_answer :: "js_value \<Rightarrow> js_error + insights" where
  "parse_answer data =
     (case contentBlock data of
        Inl e \<Rightarrow> Inl e
      | Inr (JString c) \<Rightarrow>
          (case JSON_parse (extract_content c) of
             None \<Rightarrow> Inl SyntaxError
           | Some parsed \<Rightarrow> augment parsed data)
      | Inr v \<Rightarrow> Inl TypeError)"

definition fetchPerplexityInsights ::
  "'w platform \<Rightarrow> args \<Rightarrow> 'w run \<Rightarrow> (js_error + insights option) \<times> 'w run" where
  "fetchPerplexityInsights P a r =
     (if aborted P (signal a) (world r) then (Inr None, r)
      else
        (case env_var P (world r) (js ''PERPLEXITY_API_KEY'') of
           None \<Rightarrow> (Inl (Error (js ''Perplexity API key is missing'')), r)
         | Some apiKey \<Rightarrow>
             if apiKey = [] then (Inl (Error (js ''Perplexity API key is missing'')), r)
             else
               (let req = build_request P (world r) apiKey a;
                    (fetched, w1) = http_fetch P req (world r);
                    r1 = record_event (HttpFetch req) w1 r
                in case fetched of
                     Inl e \<Rightarrow> (Inl e, r1)
                   | Inr resp \<Rightarrow>
                       if \<not> ok resp
                       then (Inl (Error (js ''Perplexity AI API error: '' @ statusText resp)), r1)
                       else
                         (let (read, w2) = response_json P resp w1;
                              r2 = record_event (ReadBody resp) w2 r1
                          in case read of
                               Inl e \<Rightarrow> (Inl e, r2)
                             | Inr data \<Rightarrow> (map_sum id Some (parse_answer data), r2)))))"

section \<open>\<open>fetchPerplexityInsightsWithCache\<close>\<close>

text \<open>
  \<^verbatim>\<open>if (signal?.aborted || !freshInsights) return null;\<close> is the \<open>None\<close> branch of
  the inner case: the fetched value counts as absent when the signal is aborted.
\<close>

definition fetchPerplexityInsightsWithCache ::
  "'w platform \<Rightarrow> args \<Rightarrow> 'w run \<Rightarrow> (js_error + insights option) \<times> 'w run" where
  "fetchPerplexityInsightsWithCache P a r =
     (if aborted P (signal a) (world r) then (Inr None, r)
      else
        (let (looked, w1) = fetchPerplexityInsightsFromCache P (address a) (world r);
             r1 = record_event (CacheRead (address a)) w1 r
         in case looked of
              Inl e \<Rightarrow> (Inl e, r1)
            | Inr (Some cachedInsights) \<Rightarrow> (Inr (Some cachedInsights), r1)
            | Inr None \<Rightarrow>
                (case fetchPerplexityInsights P a r1 of
                   (Inl e, r2) \<Rightarrow> (Inl e, r2)
                 | (Inr freshInsights, r2) \<Rightarrow>
                     (case (if aborted P (signal a) (world r2) then None else freshInsights) of
                        None \<Rightarrow> (Inr None, r2)
                      | Some insights \<Rightarrow>
                          (let (saved, w3) =
                                 savePerplexityInsightsToCache P (address a) insights (world r2);
                               r3 = record_event (CacheWrite (address a) insights) w3 r2
                           in case saved of
                                Inl e \<Rightarrow> (Inl e, r3)
                              | Inr u \<Rightarrow> (Inr (Some insights), r3))))))"

section \<open>The fallback as the specification words it\<close>

text \<open>
  The specification calls the fallback the extraction of the first top-level
  brace-delimited object of the text: from the first opening brace to the closing
  brace that balances it. \<open>closing_brace depth acc s\<close> scans for that brace, and
  \<open>spec_extract\<close> is the extraction step with this fallback in place of the second
  pattern.
\<close>

fun closing_brace :: "nat \<Rightarrow> jstring \<Rightarrow> jstring \<Rightarrow> jstring option" where
  "closing_brace depth acc [] = None"
| "closing_brace depth acc (c # cs) =
     (if c = 123 then closing_brace (Suc depth) (c # acc) cs
      else if c = 125 then
        (case depth of
           0 \<Rightarrow> Some (rev (c # acc))
         | Suc d \<Rightarrow> closing_brace d (c # acc) cs)
      else closing_brace depth (c # acc) cs)"

definition first_top_level_object :: "jstring \<Rightarrow> jstring option" where
  "first_top_level_object s =
     (case dropWhile (\<lambda>c. c \<noteq> 123) s of
        [] \<Rightarrow> None
      | b # u \<Rightarrow> closing_brace 0 [b] u)"

definition spec_extract :: "jstring \<Rightarrow> jstring" where
  "spec_extract c =
     (case fenced c of
        Some g \<Rightarrow> g
      | None \<Rightarrow> (case first_top_level_object c of Some g \<Rightarrow> g | None \<Rightarrow> []))"

section \<open>A scripted platform\<close>

text \<open>
  A platform whose answers are fixed by its state, on which the theorems below are
  instantiated: the environment variables and the cache are association lists, the
  network gives one scripted response and one scripted body, and the caller aborts
  the signal while the request is in flight when \<open>abort_in_flight\<close> is set.
\<close>

record script =
  variables :: "(jstring \<times> jstring) list"
  is_aborted :: bool
  abort_in_flight :: bool
  scripted_response :: "js_error + response"
  scripted_body :: "js_error + js_value"
  cache_entries :: "(jstring \<times> insights) list"

definition ascii_lower :: "code_unit \<Rightarrow> code_unit" where
  "ascii_lower c = (if 65 \<le> c \<and> c \<le> 90 then c + 32 else c)"

definition scripted :: "script platform" where
  "scripted =
     \<lparr>env_var = (\<lambda>w k. map_of (variables w) k),
      signal_aborted = (\<lambda>w ref. is_aborted w),
      toLowerCase = map ascii_lower,
      http_fetch = (\<lambda>q w. (scripted_response w, w\<lparr>is_aborted := is_aborted w \<or> abort_in_flight w\<rparr>)),
      response_json = (\<lambda>p w. (scripted_body w, w)),
      fetchPerplexityInsightsFromCache = (\<lambda>k w. (Inr (map_of (cache_entries w) k), w)),
      savePerplexityInsightsToCache =
        (\<lambda>k v w. (Inr (), w\<lparr>cache_entries := AList.update k v (cache_entries w)\<rparr>))\<rparr>"

definition start :: "script \<Rightarrow> script run" where
  "start w = \<lparr>world = w, trace = []\<rparr>"

definition main_street :: args where
  "main_street = \<lparr>address = js ''1 Main St'', name = Some (js ''Sunset Park''), signal = Some 0\<rparr>"

definition ok_response :: response where
  "ok_response = \<lparr>ok = True, statusText = js ''OK'', response_id = 0\<rparr>"

definition unavailable :: response where
  "unavailable = \<lparr>ok = False, statusText = js ''Service Unavailable'', response_id = 1\<rparr>"

text \<open>The answers and responses of the examples.\<close>

definition example_sources :: js_value where
  "example_sources = JArray [JString (js ''https://example.org/sunset-park'')]"

definition envelope :: "jstring \<Rightarrow> js_value" where
  "envelope answer =
     JObject
       [(js ''choices'', JArray [JObject [(js ''message'', JObject [(js ''content'', JString answer)])]]),
        (js ''citations'', example_sources),
        (js ''images'', JArray [])]"

definition sunset_answer :: jstring where
  \<open>sunset_answer =
     js ''```json'' @ nl @
     js ''{"name":"Sunset Park Playground","description":"...","features":["slide","swing"],"parking":"Street parking"}'' @
     nl @ js ''```''\<close>

definition sunset_object :: jstring where
  \<open>sunset_object =
     js ''{"name":"Sunset Park Playground","description":"...","features":["slide","swing"],"parking":"Street parking"}''\<close>

definition sunset_fields :: "(jstring \<times> js_value) list" where
  "sunset_fields =
     [(js ''name'', JString (js ''Sunset Park Playground'')),
      (js ''description'', JString (js ''...'')),
      (js ''features'', JArray [JString (js ''slide''), JString (js ''swing'')]),
      (js ''parking'', JString (js ''Street parking''))]"

definition sunset_record :: insights where
  "sunset_record =
     sunset_fields @
     [(js ''sources'', example_sources),
      (js ''images'', JArray [])]"

definition bare_answer :: jstring where
  \<open>bare_answer =
     js ''Here you go: {"name":null,"description":null,"features":null,"parking":null}''\<close>

definition not_found_object :: jstring where
  \<open>not_found_object = js ''{"name":null,"description":null,"features":null,"parking":null}''\<close>

definition not_found_fields :: "(jstring \<times> js_value) list" where
  "not_found_fields =
     [(js ''name'', JNull), (js ''description'', JNull), (js ''features'', JNull),
      (js ''parking'', JNull)]"

definition two_objects :: jstring where
  \<open>two_objects = js ''{"a":1} {"b":2}''\<close>

definition apology :: jstring where
  "apology = js ''Sorry, nothing was found.''"




text \<open>The worlds of the examples.\<close>

definition quiet :: script where
  "quiet =
     \<lparr>variables = [(js ''PERPLEXITY_API_KEY'', js ''secret'')],
      is_aborted = False,
      abort_in_flight = False,
      scripted_response = Inr ok_response,
      scripted_body = Inr (envelope sunset_answer),
      cache_entries = []\<rparr>"

definition stored :: insights where
  "stored = [(js ''name'', JString (js ''Old Name'')), (js ''sources'', JArray [])]"

definition warm :: script where
  "warm = quiet\<lparr>cache_entries := [(js ''1 Main St'', stored)]\<rparr>"

definition outage :: script where
  "outage = quiet\<lparr>scripted_response := Inr unavailable\<rparr>"

definition in_flight_abort :: script where
  "in_flight_abort = quiet\<lparr>scripted_response := Inr ok_response, abort_in_flight := True\<rparr>"

definition answering :: "jstring \<Rightarrow> script" where
  "answering c = quiet\<lparr>scripted_response := Inr ok_response, scripted_body := Inr (envelope c)\<rparr>"

definition sunset_request :: "script \<Rightarrow> request" where
  "sunset_request w = build_request scripted w (js ''secret'') main_street"

section \<open>What the two patterns capture\<close>

lemma consume_closed: "current st = None \<Longrightarrow> consume c st = st"
  by (simp add: consume_def)

lemma bt_Chr:
  "current st = None \<Longrightarrow>
   bt (Chr k # p) st s = (case s of [] \<Rightarrow> None | c # cs \<Rightarrow> if cls_match k c then bt p st cs else None)"
  by (cases s) (simp_all add: consume_closed)

lemma not_closes_empty [simp]: "\<not> closes_fence []"
  by (simp add: closes_fence_def)

lemma closes_fence_Cons:
  "closes_fence (c # cs) = (if is_space c then closes_fence cs else starts_with [96, 96, 96] (c # cs))"
  by (simp add: closes_fence_def)

lemma space_not_backtick: "is_space c \<Longrightarrow> c \<noteq> 96"
  by (auto simp add: is_space_def)

lemma closing_fence:
  "current st = None \<Longrightarrow>
   bt [Greedy Space, Chr (One 96), Chr (One 96), Chr (One 96)] st s =
     (if closes_fence s then Some st else None)"
proof (induction s)
  case Nil
  then show ?case by simp
next
  case (Cons c cs)
  show ?case
  proof (cases "is_space c")
    case True
    with Cons show ?thesis
      by (simp add: consume_closed closes_fence_Cons space_not_backtick)
  next
    case False
    with Cons.prems show ?thesis
      by (simp add: closes_fence_Cons bt_Chr consume_closed split: list.splits)
  qed
qed

lemma lazy_body:
  assumes p: "\<And>st s. current st = None \<Longrightarrow> bt p st s = (if closes_fence s then Some st else None)"
    and "current st = Some acc"
  shows "bt (Lazy AnyChar # GroupClose # p) st s =
           map_option (\<lambda>g. \<lparr>captured = Some (rev acc @ g), current = None\<rparr>) (fence_body s)"
  using assms(2)
proof (induction s arbitrary: st acc)
  case Nil
  then show ?case by (simp add: p group_close_def)
next
  case (Cons c cs)
  have "current (consume c st) = Some (c # acc)"
    using Cons.prems by (simp add: consume_def)
  from Cons.IH [OF this] Cons.prems show ?case
    by (simp add: p group_close_def option.map_comp comp_def)
qed

lemma fence_body_after_space:
  "fence_body (dropWhile is_space s) = None \<Longrightarrow> fence_body s = None"
proof (induction s)
  case Nil
  then show ?case by simp
next
  case (Cons c cs)
  show ?case
  proof (cases "is_space c")
    case False
    with Cons.prems show ?thesis by simp
  next
    case True
    with Cons have n: "fence_body cs = None" by simp
    then have "\<not> closes_fence cs" by (cases cs) (auto split: if_splits)
    with True n show ?thesis by (simp add: closes_fence_Cons)
  qed
qed

lemma after_opening:
  assumes q: "\<And>st acc s. current st = Some acc \<Longrightarrow>
                bt q st s = map_option (\<lambda>g. \<lparr>captured = Some (rev acc @ g), current = None\<rparr>)
                              (fence_body s)"
    and "current st = None"
  shows "bt (Greedy Space # GroupOpen # q) st s =
           map_option (\<lambda>g. \<lparr>captured = Some g, current = None\<rparr>)
             (fence_body (dropWhile is_space s))"
  using assms(2)
proof (induction s)
  case Nil
  then show ?case by (simp add: q [of _ "[]"] group_open_def)
next
  case (Cons c cs)
  show ?case
  proof (cases "is_space c")
    case False
    then show ?thesis by (simp add: q [of _ "[]"] group_open_def)
  next
    case True
    show ?thesis
    proof (cases "fence_body (dropWhile is_space cs)")
      case (Some g)
      with True Cons show ?thesis by (simp add: consume_closed)
    next
      case None
      then have "fence_body (c # cs) = None"
        using True fence_body_after_space [of "c # cs"] by simp
      with None True Cons show ?thesis
        by (simp add: consume_closed q [of _ "[]"] group_open_def del: fence_body.simps)
    qed
  qed
qed

lemma fence_tail:
  "current st = None \<Longrightarrow>
   bt [Greedy Space, GroupOpen, Lazy AnyChar, GroupClose, Greedy Space,
       Chr (One 96), Chr (One 96), Chr (One 96)] st s =
     map_option (\<lambda>g. \<lparr>captured = Some g, current = None\<rparr>) (fence_body (dropWhile is_space s))"
  by (rule after_opening [OF lazy_body [OF closing_fence]])

lemma fence_here:
  "bt fence_rx no_capture s =
     (if opens_fence s
      then map_option (\<lambda>g. \<lparr>captured = Some g, current = None\<rparr>)
             (fence_body (dropWhile is_space (drop 7 s)))
      else None)"
proof -
  have c: "current no_capture = None" by (simp add: no_capture_def)
  show ?thesis
    unfolding fence_rx_def
    by (simp add: bt_Chr c fence_tail opens_fence_def split: list.splits)
qed

lemma fence_match_fenced: "rx_match fence_rx s = map_option Some (fenced s)"
proof (induction s)
  case Nil
  then show ?case by (simp add: fence_here opens_fence_def)
next
  case (Cons c cs)
  then show ?case
    by (simp add: fence_here split: option.splits)
qed







text \<open>The greedy star of the second pattern runs to the last closing brace.\<close>

lemma greedy_to_last:
  "bt [Greedy AnyChar, Chr (One k), GroupClose] st u =
     (if k \<in> set u
      then Some \<lparr>captured = map_option (\<lambda>acc. rev acc @ upto_last k u) (current st),
                 current = None\<rparr>
      else None)"
proof (induction u arbitrary: st)
  case Nil
  then show ?case by simp
next
  case (Cons c cs)
  show ?case
  proof (cases "k \<in> set cs")
    case True
    then show ?thesis
      by (simp add: Cons.IH consume_def option.map_comp comp_def)
  next
    case False
    then show ?thesis
      by (auto simp add: Cons.IH consume_def group_close_def option.map_comp comp_def)
  qed
qed

lemma brace_here:
  "bt brace_rx no_capture (c # u) =
     (if c = 123 \<and> 125 \<in> set u
      then Some \<lparr>captured = Some (c # upto_last 125 u), current = None\<rparr>
      else None)"
  by (simp add: brace_rx_def greedy_to_last no_capture_def group_open_def consume_def)

lemma brace_span_none: "125 \<notin> set s \<Longrightarrow> brace_span s = None"
proof -
  assume a: "125 \<notin> set s"
  show ?thesis
  proof (cases "dropWhile (\<lambda>c. c \<noteq> 123) s")
    case Nil
    show ?thesis unfolding brace_span_def Nil by simp
  next
    case (Cons b u)
    then have "set u \<subseteq> set s"
      by (metis set_dropWhileD set_subset_Cons subsetD subsetI)
    with a Cons show ?thesis by (auto simp add: brace_span_def)
  qed
qed

lemma brace_match_span: "rx_match brace_rx s = map_option Some (brace_span s)"
proof (induction s)
  case Nil
  then show ?case by (simp add: brace_rx_def brace_span_def no_capture_def group_open_def)
next
  case (Cons c cs)
  show ?case
  proof (cases "c = 123")
    case False
    then show ?thesis
      using Cons.IH by (simp add: brace_here brace_span_def)
  next
    case True
    show ?thesis
    proof (cases "125 \<in> set cs")
      case True
      with \<open>c = 123\<close> show ?thesis by (simp add: brace_here brace_span_def)
    next
      case False
      with \<open>c = 123\<close> Cons.IH show ?thesis
        by (simp add: brace_here brace_span_none) 
    qed
  qed
qed

lemma extract_by_cases:
  "extract_content c =
     (case fenced c of
        Some g \<Rightarrow> g
      | None \<Rightarrow> (case brace_span c of Some g \<Rightarrow> g | None \<Rightarrow> []))"
  by (simp add: extract_content_def jsonMatch_def fence_match_fenced brace_match_span
           split: option.splits)

section \<open>The paths through the fetcher\<close>

lemma fetch_aborted:
  "aborted P (signal a) (world r) \<Longrightarrow> fetchPerplexityInsights P a r = (Inr None, r)"
  by (simp add: fetchPerplexityInsights_def)

lemma cached_aborted:
  "aborted P (signal a) (world r) \<Longrightarrow> fetchPerplexityInsightsWithCache P a r = (Inr None, r)"
  by (simp add: fetchPerplexityInsightsWithCache_def)

lemma fetch_not_ok:
  assumes "\<not> aborted P (signal a) (world r)"
    and "env_var P (world r) (js ''PERPLEXITY_API_KEY'') = Some apiKey"
    and "apiKey \<noteq> []"
    and "http_fetch P (build_request P (world r) apiKey a) (world r) = (Inr resp, w1)"
    and "\<not> ok resp"
  shows "fetchPerplexityInsights P a r =
           (Inl (Error (js ''Perplexity AI API error: '' @ statusText resp)),
            \<lparr>world = w1, trace = trace r @ [HttpFetch (build_request P (world r) apiKey a)]\<rparr>)"
  using assms by (simp add: fetchPerplexityInsights_def record_event_def)

lemma fetch_answered:
  assumes "\<not> aborted P (signal a) (world r)"
    and "env_var P (world r) (js ''PERPLEXITY_API_KEY'') = Some apiKey"
    and "apiKey \<noteq> []"
    and "http_fetch P (build_request P (world r) apiKey a) (world r) = (Inr resp, w1)"
    and "ok resp"
    and "response_json P resp w1 = (Inr data, w2)"
  shows "fetchPerplexityInsights P a r =
           (map_sum id Some (parse_answer data),
            \<lparr>world = w2,
             trace = trace r @ [HttpFetch (build_request P (world r) apiKey a), ReadBody resp]\<rparr>)"
  using assms by (simp add: fetchPerplexityInsights_def record_event_def)

lemma fetch_keeps_cache_events:
  assumes "fetchPerplexityInsights P a r = (res, r')"
  shows "filter is_cache_write (trace r') = filter is_cache_write (trace r)"
    and "filter is_cache_read (trace r') = filter is_cache_read (trace r)"
  using assms
  by (auto simp add: fetchPerplexityInsights_def record_event_def Let_def
           split: if_splits option.splits prod.splits sum.splits)

lemma cached_miss:
  assumes "\<not> aborted P (signal a) (world r)"
    and "fetchPerplexityInsightsFromCache P (address a) (world r) = (Inr None, w1)"
  shows "fetchPerplexityInsightsWithCache P a r =
           (case fetchPerplexityInsights P a \<lparr>world = w1, trace = trace r @ [CacheRead (address a)]\<rparr> of
              (Inl e, r2) \<Rightarrow> (Inl e, r2)
            | (Inr freshInsights, r2) \<Rightarrow>
                (case (if aborted P (signal a) (world r2) then None else freshInsights) of
                   None \<Rightarrow> (Inr None, r2)
                 | Some insights \<Rightarrow>
                     (let (saved, w3) =
                            savePerplexityInsightsToCache P (address a) insights (world r2);
                          r3 = record_event (CacheWrite (address a) insights) w3 r2
                      in case saved of
                           Inl e \<Rightarrow> (Inl e, r3)
                         | Inr u \<Rightarrow> (Inr (Some insights), r3))))"
  using assms by (simp add: fetchPerplexityInsightsWithCache_def record_event_def)

section \<open>The examples, evaluated\<close>

lemmas rx_defs =
  extract_content_def jsonMatch_def fence_rx_def brace_rx_def no_capture_def consume_def
  group_open_def group_close_def is_space_def

lemmas json_defs =
  JSON_parse_def json_ws_def is_digit_def hex_digit_def hex4_def escape_def num_char_def
  exponent_ok_def fraction_ok_def valid_number_def

lemmas capture_defs =
  opens_fence_def closes_fence_def brace_span_def is_space_def

text \<open>The scripted platform, step by step.\<close>

lemma scripted_aborted [simp]:
  "aborted scripted (Some ref) w = is_aborted w"
  by (simp add: aborted_def scripted_def)

lemma scripted_key:
  "env_var scripted (w\<lparr>variables := [(js ''PERPLEXITY_API_KEY'', k)]\<rparr>) (js ''PERPLEXITY_API_KEY'') = Some k"
  by (simp add: scripted_def)

lemma scripted_steps [simp]:
  "env_var scripted w k = map_of (variables w) k"
  "http_fetch scripted q w = (scripted_response w, w\<lparr>is_aborted := is_aborted w \<or> abort_in_flight w\<rparr>)"
  "response_json scripted p w = (scripted_body w, w)"
  "fetchPerplexityInsightsFromCache scripted k w = (Inr (map_of (cache_entries w) k), w)"
  "savePerplexityInsightsToCache scripted k v w =
     (Inr (), w\<lparr>cache_entries := AList.update k v (cache_entries w)\<rparr>)"
  by (simp_all add: scripted_def)

lemma extract_sunset: "extract_content sunset_answer = sunset_object"
  by (simp add: sunset_answer_def sunset_object_def nl_def js_def rx_defs)

lemma parse_sunset: "JSON_parse sunset_object = Some (JObject sunset_fields)"
  by (simp add: sunset_object_def sunset_fields_def js_def json_defs)

lemma content_of_envelope: "contentBlock (envelope c) = Inr (JString c)"
  by (simp add: contentBlock_def envelope_def js_def)

lemma answer_sunset: "parse_answer (envelope sunset_answer) = Inr sunset_record"
  by (simp add: parse_answer_def content_of_envelope extract_sunset parse_sunset)
     (simp add: augment_def envelope_def sunset_record_def sunset_fields_def js_def)

lemma extract_two_objects: "extract_content two_objects = two_objects"
  by (simp add: two_objects_def js_def rx_defs)

lemma extract_bare: "extract_content bare_answer = not_found_object"
  by (simp add: bare_answer_def not_found_object_def js_def rx_defs)

lemma parse_not_found: "JSON_parse not_found_object = Some (JObject not_found_fields)"
  by (simp add: not_found_object_def not_found_fields_def js_def json_defs)

lemma parse_empty: "JSON_parse [] = None"
  by (simp add: JSON_parse_def)

lemma secret_nonempty: "js ''secret'' \<noteq> []"
  by (simp add: js_def)

lemma ok_response_ok: "ok ok_response"
  by (simp add: ok_response_def)

lemma answering_flow:
  "\<not> aborted scripted (signal main_street) (world (start (answering c)))"
  "env_var scripted (world (start (answering c))) (js ''PERPLEXITY_API_KEY'') = Some (js ''secret'')"
  "http_fetch scripted
     (build_request scripted (world (start (answering c))) (js ''secret'') main_street)
     (world (start (answering c))) = (Inr ok_response, answering c)"
  "response_json scripted ok_response (answering c) = (Inr (envelope c), answering c)"
  by (simp_all add: start_def answering_def quiet_def main_street_def)

lemma envelope_lists:
  "member (envelope c) (js ''citations'') = Inr example_sources"
  "member (envelope c) (js ''images'') = Inr (JArray [])"
  by (simp_all add: envelope_def example_sources_def js_def)


lemma fetch_quiet:
  assumes "variables w = [(js ''PERPLEXITY_API_KEY'', js ''secret'')]"
    and "\<not> is_aborted w"
    and "scripted_response w = Inr ok_response"
    and "scripted_body w = Inr (envelope sunset_answer)"
  shows "fetchPerplexityInsights scripted main_street \<lparr>world = w, trace = t\<rparr> =
           (Inr (Some sunset_record),
            \<lparr>world = w\<lparr>is_aborted := abort_in_flight w\<rparr>,
             trace = t @ [HttpFetch (sunset_request w), ReadBody ok_response]\<rparr>)"
proof -
  let ?r = "\<lparr>world = w, trace = t\<rparr>"
  have 1: "\<not> aborted scripted (signal main_street) (world ?r)"
    using assms(2) by (simp add: main_street_def)
  have 2: "env_var scripted (world ?r) (js ''PERPLEXITY_API_KEY'') = Some (js ''secret'')"
    using assms(1) by simp
  have 3: "js ''secret'' \<noteq> []" by (simp add: js_def)
  have 4: "http_fetch scripted (build_request scripted (world ?r) (js ''secret'') main_street) (world ?r)
             = (Inr ok_response, w\<lparr>is_aborted := abort_in_flight w\<rparr>)"
    using assms(2,3) by simp
  have 5: "ok ok_response" by (simp add: ok_response_def)
  have 6: "response_json scripted ok_response (w\<lparr>is_aborted := abort_in_flight w\<rparr>)
             = (Inr (envelope sunset_answer), w\<lparr>is_aborted := abort_in_flight w\<rparr>)"
    using assms(4) by simp
  from fetch_answered [OF 1 2 3 4 5 6] show ?thesis
    by (simp add: answer_sunset sunset_request_def)
qed

text \<open>\<open>JSON.parse\<close> on small texts.\<close>

lemma parse_accepts:
  \<open>JSON_parse (js '' [1, -0.5e+10, true, false, null, {"a": {}, "a": [[]]}, "x/y"] '') =
     Some (JArray [JNumber (js ''1''), JNumber (js ''-0.5e+10''), JBool True, JBool False, JNull,
                   JObject [(js ''a'', JArray [JArray []])], JString (js ''x/y'')])\<close>
  \<open>JSON_parse (js ''"a'' @ [92] @ js ''u00e9'' @ [92] @ js ''n"'') = Some (JString [97, 233, 10])\<close>
  \<open>JSON_parse (js ''-0'') = Some (JNumber (js ''-0''))\<close>
  by (simp_all add: js_def json_defs)

lemma parse_rejects:
  \<open>JSON_parse (js ''{'') = None\<close>
  \<open>JSON_parse (js ''01'') = None\<close>
  \<open>JSON_parse (js ''1.'') = None\<close>
  \<open>JSON_parse (js ''[1,]'') = None\<close>
  \<open>JSON_parse (js ''{"a":1,}'') = None\<close>
  \<open>JSON_parse (js ''{"a" 1}'') = None\<close>
  \<open>JSON_parse (js ''nul'') = None\<close>
  \<open>JSON_parse (js ''1 2'') = None\<close>
  \<open>JSON_parse (js ''"a'') = None\<close>
  \<open>JSON_parse (js ''{"a":1} x'') = None\<close>
  \<open>JSON_parse (js ''undefined'') = None\<close>
  by (simp_all add: js_def json_defs)

section \<open>Cancellation before the call\<close>

text \<open>
  C1. When the signal is already aborted at entry, the fetcher and the wrapper both
  return \<open>null\<close> and leave the run as it was: the world is untouched and the trace
  has no new event, so there was no network call, no cache read and no cache write.
\<close>

theorem aborted_at_entry_no_io:
  assumes "aborted P (signal a) (world r)"
  shows "fetchPerplexityInsights P a r = (Inr None, r) \<and>
         fetchPerplexityInsightsWithCache P a r = (Inr None, r)"
  using assms by (simp add: fetch_aborted cached_aborted)

theorem aborted_at_entry_no_io_witness:
  "aborted scripted (signal main_street) (world (start (quiet\<lparr>is_aborted := True\<rparr>))) \<and>
   fetchPerplexityInsights scripted main_street (start (quiet\<lparr>is_aborted := True\<rparr>))
     = (Inr None, start (quiet\<lparr>is_aborted := True\<rparr>)) \<and>
   fetchPerplexityInsightsWithCache scripted main_street (start (quiet\<lparr>is_aborted := True\<rparr>))
     = (Inr None, start (quiet\<lparr>is_aborted := True\<rparr>))"
proof -
  have h: "aborted scripted (signal main_street) (world (start (quiet\<lparr>is_aborted := True\<rparr>)))"
    by (simp add: main_street_def start_def quiet_def)
  from aborted_at_entry_no_io [OF h] h show ?thesis by simp
qed

section \<open>The cache in front of the fetcher\<close>

text \<open>
  C2. On a cache hit the wrapper returns the record the cache gave, whatever the
  \<open>name\<close> argument is, and the only thing it did is the cache read: the trace gains
  that one event, so there is no network call and no cache write.
\<close>

theorem cache_hit_returned_verbatim:
  assumes "\<not> aborted P (signal a) (world r)"
    and "fetchPerplexityInsightsFromCache P (address a) (world r) = (Inr (Some cached), w1)"
  shows "fetchPerplexityInsightsWithCache P a r =
           (Inr (Some cached), \<lparr>world = w1, trace = trace r @ [CacheRead (address a)]\<rparr>)"
  using assms by (simp add: fetchPerplexityInsightsWithCache_def record_event_def)

theorem cache_hit_returned_verbatim_witness:
  "\<not> aborted scripted (signal main_street) (world (start warm)) \<and>
   fetchPerplexityInsightsFromCache scripted (address main_street) (world (start warm))
     = (Inr (Some stored), warm) \<and>
   fetchPerplexityInsightsWithCache scripted main_street (start warm)
     = (Inr (Some stored), \<lparr>world = warm, trace = [CacheRead (address main_street)]\<rparr>)"
proof -
  have h1: "\<not> aborted scripted (signal main_street) (world (start warm))"
    by (simp add: main_street_def start_def warm_def quiet_def)
  have h2: "fetchPerplexityInsightsFromCache scripted (address main_street) (world (start warm))
              = (Inr (Some stored), warm)"
    by (simp add: scripted_def main_street_def start_def warm_def js_def)
  from cache_hit_returned_verbatim [OF h1 h2] h1 h2 show ?thesis
    by (simp add: start_def)
qed

text \<open>
  C3. After a cache miss and a fetch that returned a record, with the signal not
  aborted when the fetch is back, the wrapper calls the cache's save with the address
  and that record: the write is the last event of the trace. When the save is
  acknowledged the wrapper returns the very record it wrote; when the save fails its
  error is what the caller gets.
\<close>

theorem miss_then_fetch_writes_and_returns:
  assumes "\<not> aborted P (signal a) (world r)"
    and "fetchPerplexityInsightsFromCache P (address a) (world r) = (Inr None, w1)"
    and "fetchPerplexityInsights P a \<lparr>world = w1, trace = trace r @ [CacheRead (address a)]\<rparr>
           = (Inr (Some fresh), r2)"
    and "\<not> aborted P (signal a) (world r2)"
    and "savePerplexityInsightsToCache P (address a) fresh (world r2) = (saved, w3)"
  shows "snd (fetchPerplexityInsightsWithCache P a r)
           = \<lparr>world = w3, trace = trace r2 @ [CacheWrite (address a) fresh]\<rparr> \<and>
         (\<forall>u. saved = Inr u \<longrightarrow> fst (fetchPerplexityInsightsWithCache P a r) = Inr (Some fresh)) \<and>
         (\<forall>e. saved = Inl e \<longrightarrow> fst (fetchPerplexityInsightsWithCache P a r) = Inl e)"
  using assms(3-5) unfolding cached_miss [OF assms(1,2)]
  by (cases saved) (simp_all add: record_event_def)

theorem miss_then_fetch_writes_and_returns_witness:
  "\<not> aborted scripted (signal main_street) (world (start quiet)) \<and>
   fetchPerplexityInsightsFromCache scripted (address main_street) (world (start quiet))
     = (Inr None, quiet) \<and>
   fetchPerplexityInsights scripted main_street
       \<lparr>world = quiet, trace = trace (start quiet) @ [CacheRead (address main_street)]\<rparr>
     = (Inr (Some sunset_record),
        \<lparr>world = quiet,
         trace = [CacheRead (address main_street), HttpFetch (sunset_request quiet),
                  ReadBody ok_response]\<rparr>) \<and>
   fetchPerplexityInsightsWithCache scripted main_street (start quiet)
     = (Inr (Some sunset_record),
        \<lparr>world = quiet\<lparr>cache_entries := [(address main_street, sunset_record)]\<rparr>,
         trace = [CacheRead (address main_street), HttpFetch (sunset_request quiet),
                  ReadBody ok_response, CacheWrite (address main_street) sunset_record]\<rparr>)"
proof -
  let ?r2 = "\<lparr>world = quiet,
              trace = [CacheRead (address main_street), HttpFetch (sunset_request quiet),
                       ReadBody ok_response]\<rparr>"
  let ?w3 = "quiet\<lparr>cache_entries := [(address main_street, sunset_record)]\<rparr>"
  have h1: "\<not> aborted scripted (signal main_street) (world (start quiet))"
    by (simp add: main_street_def start_def quiet_def)
  have h2: "fetchPerplexityInsightsFromCache scripted (address main_street) (world (start quiet))
              = (Inr None, quiet)"
    by (simp add: start_def quiet_def)
  have "quiet\<lparr>is_aborted := abort_in_flight quiet\<rparr> = quiet"
    by (simp add: quiet_def)
  then have h3: "fetchPerplexityInsights scripted main_street
                   \<lparr>world = quiet, trace = trace (start quiet) @ [CacheRead (address main_street)]\<rparr>
                 = (Inr (Some sunset_record), ?r2)"
    using fetch_quiet [of quiet "trace (start quiet) @ [CacheRead (address main_street)]"]
    by (simp add: quiet_def ok_response_def start_def)
  have h4: "\<not> aborted scripted (signal main_street) (world ?r2)"
    by (simp add: main_street_def quiet_def)
  have h5: "savePerplexityInsightsToCache scripted (address main_street) sunset_record (world ?r2)
              = (Inr (), ?w3)"
    by (simp add: quiet_def)
  from miss_then_fetch_writes_and_returns [OF h1 h2 h3 h4 h5]
  have "fetchPerplexityInsightsWithCache scripted main_street (start quiet)
          = (Inr (Some sunset_record),
             \<lparr>world = ?w3,
              trace = [CacheRead (address main_street), HttpFetch (sunset_request quiet),
                       ReadBody ok_response, CacheWrite (address main_street) sunset_record]\<rparr>)"
    by (simp add: prod_eq_iff)
  with h1 h2 h3 show ?thesis by (intro conjI)
qed

section \<open>Failures of the fetcher\<close>

text \<open>
  C4. When the response of the network call is not \<open>ok\<close>, the fetcher throws an
  error whose message is \<open>Perplexity AI API error: \<close> followed by the status text of
  the response. A wrapper that reached this fetch after a cache miss throws the same
  error, and its trace holds the cache read and the network call and no cache write.
\<close>

theorem upstream_error_propagates_unwritten:
  fixes P :: "'w platform"
  assumes "\<not> aborted P (signal a) (world r)"
    and "env_var P (world r) (js ''PERPLEXITY_API_KEY'') = Some apiKey"
    and "apiKey \<noteq> []"
    and "http_fetch P (build_request P (world r) apiKey a) (world r) = (Inr resp, w1)"
    and "\<not> ok resp"
  shows "fetchPerplexityInsights P a r =
           (Inl (Error (js ''Perplexity AI API error: '' @ statusText resp)),
            \<lparr>world = w1, trace = trace r @ [HttpFetch (build_request P (world r) apiKey a)]\<rparr>) \<and>
         (\<forall>r0. \<not> aborted P (signal a) (world r0) \<and>
               fetchPerplexityInsightsFromCache P (address a) (world r0) = (Inr None, world r) \<and>
               trace r = trace r0 @ [CacheRead (address a)] \<longrightarrow>
               fetchPerplexityInsightsWithCache P a r0 =
                 (Inl (Error (js ''Perplexity AI API error: '' @ statusText resp)),
                  \<lparr>world = w1,
                   trace = trace r0 @ [CacheRead (address a),
                                       HttpFetch (build_request P (world r) apiKey a)]\<rparr>))"
proof (intro conjI allI impI)
  show f: "fetchPerplexityInsights P a r =
           (Inl (Error (js ''Perplexity AI API error: '' @ statusText resp)),
            \<lparr>world = w1, trace = trace r @ [HttpFetch (build_request P (world r) apiKey a)]\<rparr>)"
    by (rule fetch_not_ok [OF assms])
  fix r0 :: "'w run"
  assume h: "\<not> aborted P (signal a) (world r0) \<and>
             fetchPerplexityInsightsFromCache P (address a) (world r0) = (Inr None, world r) \<and>
             trace r = trace r0 @ [CacheRead (address a)]"
  then have r: "r = \<lparr>world = world r, trace = trace r0 @ [CacheRead (address a)]\<rparr>"
    by simp
  from h have "fetchPerplexityInsightsWithCache P a r0 =
                 (case fetchPerplexityInsights P a r of
                    (Inl e, r2) \<Rightarrow> (Inl e, r2)
                  | (Inr freshInsights, r2) \<Rightarrow>
                      (case (if aborted P (signal a) (world r2) then None else freshInsights) of
                         None \<Rightarrow> (Inr None, r2)
                       | Some insights \<Rightarrow>
                           (let (saved, w3) =
                                  savePerplexityInsightsToCache P (address a) insights (world r2);
                                r3 = record_event (CacheWrite (address a) insights) w3 r2
                            in case saved of
                                 Inl e \<Rightarrow> (Inl e, r3)
                               | Inr u \<Rightarrow> (Inr (Some insights), r3))))"
    using cached_miss [of P a r0 "world r"] r by simp
  with f h show "fetchPerplexityInsightsWithCache P a r0 =
                 (Inl (Error (js ''Perplexity AI API error: '' @ statusText resp)),
                  \<lparr>world = w1,
                   trace = trace r0 @ [CacheRead (address a),
                                       HttpFetch (build_request P (world r) apiKey a)]\<rparr>)"
    by simp
qed

theorem upstream_error_propagates_unwritten_witness:
  "fetchPerplexityInsights scripted main_street
       \<lparr>world = outage, trace = [CacheRead (address main_street)]\<rparr>
     = (Inl (Error (js ''Perplexity AI API error: '' @ js ''Service Unavailable'')),
        \<lparr>world = outage,
         trace = [CacheRead (address main_street), HttpFetch (sunset_request outage)]\<rparr>) \<and>
   fetchPerplexityInsightsWithCache scripted main_street (start outage)
     = (Inl (Error (js ''Perplexity AI API error: '' @ js ''Service Unavailable'')),
        \<lparr>world = outage,
         trace = [CacheRead (address main_street), HttpFetch (sunset_request outage)]\<rparr>)"
proof -
  let ?r = "\<lparr>world = outage, trace = [CacheRead (address main_street)]\<rparr>"
  have h1: "\<not> aborted scripted (signal main_street) (world ?r)"
    by (simp add: main_street_def outage_def quiet_def)
  have h2: "env_var scripted (world ?r) (js ''PERPLEXITY_API_KEY'') = Some (js ''secret'')"
    by (simp add: outage_def quiet_def)
  have h3: "js ''secret'' \<noteq> []"
    by (simp add: js_def)
  have h4: "http_fetch scripted (build_request scripted (world ?r) (js ''secret'') main_street) (world ?r)
              = (Inr unavailable, outage)"
    by (simp add: outage_def quiet_def)
  have h5: "\<not> ok unavailable"
    by (simp add: unavailable_def)
  have h6: "\<not> aborted scripted (signal main_street) (world (start outage)) \<and>
            fetchPerplexityInsightsFromCache scripted (address main_street) (world (start outage))
              = (Inr None, world ?r) \<and>
            trace ?r = trace (start outage) @ [CacheRead (address main_street)]"
    by (simp add: main_street_def start_def outage_def quiet_def)
  from upstream_error_propagates_unwritten [OF h1 h2 h3 h4 h5] h6
  have "fetchPerplexityInsights scripted main_street ?r =
          (Inl (Error (js ''Perplexity AI API error: '' @ statusText unavailable)),
           \<lparr>world = outage,
            trace = trace ?r @ [HttpFetch (build_request scripted (world ?r) (js ''secret'') main_street)]\<rparr>)"
    and "fetchPerplexityInsightsWithCache scripted main_street (start outage) =
          (Inl (Error (js ''Perplexity AI API error: '' @ statusText unavailable)),
           \<lparr>world = outage,
            trace = trace (start outage) @
                    [CacheRead (address main_street),
                     HttpFetch (build_request scripted (world ?r) (js ''secret'') main_street)]\<rparr>)"
    by blast+
  then show ?thesis
    by (simp add: unavailable_def sunset_request_def start_def)
qed

text \<open>
  C5. With the signal not aborted and \<open>PERPLEXITY_API_KEY\<close> absent from the
  environment (or empty, which is as falsy), the fetcher throws the error
  \<open>Perplexity API key is missing\<close> and the run is as it was: no request was built
  or sent.
\<close>

theorem missing_credential_fails_before_network:
  assumes "\<not> aborted P (signal a) (world r)"
    and "env_var P (world r) (js ''PERPLEXITY_API_KEY'') = None \<or>
         env_var P (world r) (js ''PERPLEXITY_API_KEY'') = Some []"
  shows "fetchPerplexityInsights P a r =
           (Inl (Error (js ''Perplexity API key is missing'')), r)"
  using assms by (auto simp add: fetchPerplexityInsights_def)

theorem missing_credential_fails_before_network_witness:
  "\<not> aborted scripted (signal main_street) (world (start (quiet\<lparr>variables := []\<rparr>))) \<and>
   env_var scripted (world (start (quiet\<lparr>variables := []\<rparr>))) (js ''PERPLEXITY_API_KEY'') = None \<and>
   fetchPerplexityInsights scripted main_street (start (quiet\<lparr>variables := []\<rparr>))
     = (Inl (Error (js ''Perplexity API key is missing'')), start (quiet\<lparr>variables := []\<rparr>))"
proof -
  let ?r = "start (quiet\<lparr>variables := []\<rparr>)"
  have h1: "\<not> aborted scripted (signal main_street) (world ?r)"
    by (simp add: main_street_def start_def quiet_def)
  have h2: "env_var scripted (world ?r) (js ''PERPLEXITY_API_KEY'') = None"
    by (simp add: scripted_def start_def quiet_def)
  from missing_credential_fails_before_network [OF h1 disjI1 [OF h2]] h1 h2
  show ?thesis by simp
qed

section \<open>From the answer to the record\<close>

text \<open>
  C6, as the code has it. The extraction takes the body of the first closed
  \<open>json\<close> fence of the answer when there is one (\<open>fenced\<close>); otherwise it takes
  the text from the first opening brace of the answer to its last closing brace
  (\<open>brace_span\<close>), and the empty text when there is no such span. For the bare answer
  \<^verbatim>\<open>Here you go: {"name":null,"description":null,"features":null,"parking":null}\<close>
  the span is the object, and the fetcher returns the record whose four primary
  fields are \<open>null\<close>, with the \<open>sources\<close> and \<open>images\<close> of the response.
\<close>

theorem extraction_fence_then_brace_span:
  assumes "\<not> aborted P (signal a) (world r)"
    and "env_var P (world r) (js ''PERPLEXITY_API_KEY'') = Some apiKey"
    and "apiKey \<noteq> []"
    and "http_fetch P (build_request P (world r) apiKey a) (world r) = (Inr resp, w1)"
    and "ok resp"
    and "response_json P resp w1 = (Inr data, w2)"
    and "contentBlock data = Inr (JString bare_answer)"
    and "member data (js ''citations'') = Inr cit"
    and "member data (js ''images'') = Inr img"
  shows "(\<forall>c. extract_content c =
              (case fenced c of
                 Some g \<Rightarrow> g
               | None \<Rightarrow> (case brace_span c of Some g \<Rightarrow> g | None \<Rightarrow> []))) \<and>
         fenced bare_answer = None \<and>
         brace_span bare_answer = Some not_found_object \<and>
         fetchPerplexityInsights P a r =
           (Inr (Some [(js ''name'', JNull), (js ''description'', JNull),
                       (js ''features'', JNull), (js ''parking'', JNull),
                       (js ''sources'', cit), (js ''images'', img)]),
            \<lparr>world = w2,
             trace = trace r @ [HttpFetch (build_request P (world r) apiKey a), ReadBody resp]\<rparr>)"
proof (intro conjI allI)
  fix c
  show "extract_content c =
          (case fenced c of
             Some g \<Rightarrow> g
           | None \<Rightarrow> (case brace_span c of Some g \<Rightarrow> g | None \<Rightarrow> []))"
    by (rule extract_by_cases)
next
  show "fenced bare_answer = None"
    by (simp add: bare_answer_def js_def capture_defs)
next
  show "brace_span bare_answer = Some not_found_object"
    by (simp add: bare_answer_def not_found_object_def js_def capture_defs)
next
  have "parse_answer data =
          Inr [(js ''name'', JNull), (js ''description'', JNull),
               (js ''features'', JNull), (js ''parking'', JNull),
               (js ''sources'', cit), (js ''images'', img)]"
    using assms(7-9)
    by (simp add: parse_answer_def extract_bare parse_not_found augment_def)
       (simp add: not_found_fields_def js_def)
  with fetch_answered [OF assms(1-6)]
  show "fetchPerplexityInsights P a r =
           (Inr (Some [(js ''name'', JNull), (js ''description'', JNull),
                       (js ''features'', JNull), (js ''parking'', JNull),
                       (js ''sources'', cit), (js ''images'', img)]),
            \<lparr>world = w2,
             trace = trace r @ [HttpFetch (build_request P (world r) apiKey a), ReadBody resp]\<rparr>)"
    by simp
qed

theorem extraction_fence_then_brace_span_witness:
  "contentBlock (envelope bare_answer) = Inr (JString bare_answer) \<and>
   fetchPerplexityInsights scripted main_street (start (answering bare_answer)) =
     (Inr (Some [(js ''name'', JNull), (js ''description'', JNull),
                 (js ''features'', JNull), (js ''parking'', JNull),
                 (js ''sources'', example_sources), (js ''images'', JArray [])]),
      \<lparr>world = answering bare_answer,
       trace = [HttpFetch (sunset_request (answering bare_answer)), ReadBody ok_response]\<rparr>)"
proof -
  note t = extraction_fence_then_brace_span
             [OF answering_flow(1) [of bare_answer] answering_flow(2) secret_nonempty
                 answering_flow(3) ok_response_ok answering_flow(4)
                 content_of_envelope envelope_lists]
  then have "fetchPerplexityInsights scripted main_street (start (answering bare_answer)) =
     (Inr (Some [(js ''name'', JNull), (js ''description'', JNull),
                 (js ''features'', JNull), (js ''parking'', JNull),
                 (js ''sources'', example_sources), (js ''images'', JArray [])]),
      \<lparr>world = answering bare_answer,
       trace = [HttpFetch (sunset_request (answering bare_answer)), ReadBody ok_response]\<rparr>)"
    by (simp add: start_def sunset_request_def)
  with content_of_envelope [of bare_answer] show ?thesis by (intro conjI)
qed

text \<open>
  The claim as the specification words it: the fallback is the first top-level
  brace-delimited object, the text from the first opening brace to the brace that
  closes it (\<open>first_top_level_object\<close>, \<open>spec_extract\<close>). On an answer with two
  objects the code extracts both and what lies between them, not the first one, and
  \<open>JSON.parse\<close> rejects it.
\<close>

theorem first_object_fallback_counterexample:
  \<open>fenced two_objects = None \<and>
   first_top_level_object two_objects = Some (js ''{"a":1}'') \<and>
   spec_extract two_objects = js ''{"a":1}'' \<and>
   extract_content two_objects = js ''{"a":1} {"b":2}'' \<and>
   extract_content two_objects \<noteq> spec_extract two_objects \<and>
   JSON_parse (extract_content two_objects) = None\<close>
proof -
  have 1: "fenced two_objects = None"
    by (simp add: two_objects_def js_def capture_defs)
  have 0: \<open>first_top_level_object two_objects = Some (js ''{"a":1}'')\<close>
    by (simp add: first_top_level_object_def two_objects_def js_def)
  have 2: \<open>spec_extract two_objects = js ''{"a":1}''\<close>
    by (simp add: spec_extract_def 0 1)
  have 3: \<open>extract_content two_objects = js ''{"a":1} {"b":2}''\<close>
    using extract_two_objects by (simp add: two_objects_def)
  have 4: "extract_content two_objects \<noteq> spec_extract two_objects"
    unfolding 2 3 by (simp add: js_def)
  have 5: "JSON_parse (extract_content two_objects) = None"
    unfolding extract_two_objects by (simp add: two_objects_def js_def json_defs)
  from 1 0 2 3 4 5 show ?thesis by (intro conjI)
qed




text \<open>
  C8. When the extracted text is not valid JSON, the fetcher throws the
  \<open>SyntaxError\<close> of \<open>JSON.parse\<close> and returns no record. An answer that neither
  pattern matches (no closed fence, no brace span) is such a case: the extracted text
  is empty, and the empty text is not valid JSON.
\<close>

theorem unparsable_answer_is_syntax_error:
  assumes "\<not> aborted P (signal a) (world r)"
    and "env_var P (world r) (js ''PERPLEXITY_API_KEY'') = Some apiKey"
    and "apiKey \<noteq> []"
    and "http_fetch P (build_request P (world r) apiKey a) (world r) = (Inr resp, w1)"
    and "ok resp"
    and "response_json P resp w1 = (Inr data, w2)"
    and "contentBlock data = Inr (JString c)"
    and "JSON_parse (extract_content c) = None \<or> (fenced c = None \<and> brace_span c = None)"
  shows "fetchPerplexityInsights P a r =
           (Inl SyntaxError,
            \<lparr>world = w2,
             trace = trace r @ [HttpFetch (build_request P (world r) apiKey a), ReadBody resp]\<rparr>) \<and>
         (fenced c = None \<and> brace_span c = None \<longrightarrow> extract_content c = [])"
proof
  have e: "extract_content c = []" if "fenced c = None \<and> brace_span c = None"
    using that by (simp add: extract_by_cases)
  with assms(8) have "JSON_parse (extract_content c) = None"
    by (auto simp add: parse_empty)
  with assms(7) have "parse_answer data = Inl SyntaxError"
    by (simp add: parse_answer_def)
  with fetch_answered [OF assms(1-6)]
  show "fetchPerplexityInsights P a r =
           (Inl SyntaxError,
            \<lparr>world = w2,
             trace = trace r @ [HttpFetch (build_request P (world r) apiKey a), ReadBody resp]\<rparr>)"
    by simp
  from e show "fenced c = None \<and> brace_span c = None \<longrightarrow> extract_content c = []"
    by simp
qed

theorem unparsable_answer_is_syntax_error_witness:
  "fenced apology = None \<and> brace_span apology = None \<and>
   extract_content apology = [] \<and>
   fetchPerplexityInsights scripted main_street (start (answering apology)) =
     (Inl SyntaxError,
      \<lparr>world = answering apology,
       trace = [HttpFetch (sunset_request (answering apology)), ReadBody ok_response]\<rparr>)"
proof -
  have m: "fenced apology = None \<and> brace_span apology = None"
    by (simp add: apology_def js_def capture_defs)
  note t = unparsable_answer_is_syntax_error
             [OF answering_flow(1) [of apology] answering_flow(2) secret_nonempty
                 answering_flow(3) ok_response_ok answering_flow(4)
                 content_of_envelope disjI2 [OF m]]
  with m have "extract_content apology = []"
    and "fetchPerplexityInsights scripted main_street (start (answering apology)) =
     (Inl SyntaxError,
      \<lparr>world = answering apology,
       trace = [HttpFetch (sunset_request (answering apology)), ReadBody ok_response]\<rparr>)"
    by (simp_all add: start_def sunset_request_def)
  with m show ?thesis by (intro conjI) simp_all
qed

section \<open>Cancellation and absence behind the cache\<close>

text \<open>
  C9. After a cache miss, when the fetch has returned and either the signal is
  aborted by then or the fetch returned \<open>null\<close>, the wrapper returns \<open>null\<close> and the
  run is the one the fetch left: the trace has no cache write that was not there
  before the call.
\<close>

theorem cancelled_or_empty_fetch_not_written:
  assumes "\<not> aborted P (signal a) (world r)"
    and "fetchPerplexityInsightsFromCache P (address a) (world r) = (Inr None, w1)"
    and "fetchPerplexityInsights P a \<lparr>world = w1, trace = trace r @ [CacheRead (address a)]\<rparr>
           = (Inr fresh, r2)"
    and "aborted P (signal a) (world r2) \<or> fresh = None"
  shows "fetchPerplexityInsightsWithCache P a r = (Inr None, r2) \<and>
         filter is_cache_write (trace r2) = filter is_cache_write (trace r)"
proof
  from assms(3,4) show "fetchPerplexityInsightsWithCache P a r = (Inr None, r2)"
    unfolding cached_miss [OF assms(1,2)] by auto
  from fetch_keeps_cache_events(1) [OF assms(3)]
  show "filter is_cache_write (trace r2) = filter is_cache_write (trace r)"
    by simp
qed

theorem cancelled_or_empty_fetch_not_written_witness:
  "\<not> aborted scripted (signal main_street) (world (start in_flight_abort)) \<and>
   fetchPerplexityInsights scripted main_street
       \<lparr>world = in_flight_abort, trace = [CacheRead (address main_street)]\<rparr>
     = (Inr (Some sunset_record),
        \<lparr>world = in_flight_abort\<lparr>is_aborted := True\<rparr>,
         trace = [CacheRead (address main_street), HttpFetch (sunset_request in_flight_abort),
                  ReadBody ok_response]\<rparr>) \<and>
   aborted scripted (signal main_street) (in_flight_abort\<lparr>is_aborted := True\<rparr>) \<and>
   fetchPerplexityInsightsWithCache scripted main_street (start in_flight_abort)
     = (Inr None,
        \<lparr>world = in_flight_abort\<lparr>is_aborted := True\<rparr>,
         trace = [CacheRead (address main_street), HttpFetch (sunset_request in_flight_abort),
                  ReadBody ok_response]\<rparr>)"
proof -
  let ?r2 = "\<lparr>world = in_flight_abort\<lparr>is_aborted := True\<rparr>,
              trace = [CacheRead (address main_street), HttpFetch (sunset_request in_flight_abort),
                       ReadBody ok_response]\<rparr>"
  have h1: "\<not> aborted scripted (signal main_street) (world (start in_flight_abort))"
    by (simp add: main_street_def start_def in_flight_abort_def quiet_def)
  have h2: "fetchPerplexityInsightsFromCache scripted (address main_street)
              (world (start in_flight_abort)) = (Inr None, in_flight_abort)"
    by (simp add: start_def in_flight_abort_def quiet_def)
  have h3: "fetchPerplexityInsights scripted main_street
              \<lparr>world = in_flight_abort,
               trace = trace (start in_flight_abort) @ [CacheRead (address main_street)]\<rparr>
            = (Inr (Some sunset_record), ?r2)"
    using fetch_quiet [of in_flight_abort
                         "trace (start in_flight_abort) @ [CacheRead (address main_street)]"]
    by (simp add: in_flight_abort_def quiet_def start_def)
  have h4: "aborted scripted (signal main_street) (world ?r2)"
    by (simp add: main_street_def)
  from cancelled_or_empty_fetch_not_written [OF h1 h2 h3 disjI1 [OF h4]]
  have "fetchPerplexityInsightsWithCache scripted main_street (start in_flight_abort)
          = (Inr None, ?r2)"
    by simp
  moreover from h3 have "fetchPerplexityInsights scripted main_street
       \<lparr>world = in_flight_abort, trace = [CacheRead (address main_street)]\<rparr>
     = (Inr (Some sunset_record), ?r2)"
    by (simp add: start_def)
  moreover from h4 have "aborted scripted (signal main_street) (in_flight_abort\<lparr>is_aborted := True\<rparr>)"
    by simp
  ultimately show ?thesis using h1 by (intro conjI)
qed

text \<open>
  C10. The test of the signal comes before the test of the credential: with the
  signal aborted at entry and no usable \<open>PERPLEXITY_API_KEY\<close> (unset or empty), the
  fetcher returns \<open>null\<close> and raises no error at all.
\<close>

theorem abort_check_precedes_credential_check:
  assumes "aborted P (signal a) (world r)"
    and "env_var P (world r) (js ''PERPLEXITY_API_KEY'') = None \<or>
         env_var P (world r) (js ''PERPLEXITY_API_KEY'') = Some []"
  shows "fetchPerplexityInsights P a r = (Inr None, r) \<and>
         (\<forall>e. fst (fetchPerplexityInsights P a r) \<noteq> Inl e)"
  using assms(1) by (simp add: fetch_aborted)

theorem abort_check_precedes_credential_check_witness:
  "aborted scripted (signal main_street)
     (world (start (quiet\<lparr>variables := [], is_aborted := True\<rparr>))) \<and>
   env_var scripted (world (start (quiet\<lparr>variables := [], is_aborted := True\<rparr>)))
     (js ''PERPLEXITY_API_KEY'') = None \<and>
   fetchPerplexityInsights scripted main_street
     (start (quiet\<lparr>variables := [], is_aborted := True\<rparr>))
     = (Inr None, start (quiet\<lparr>variables := [], is_aborted := True\<rparr>))"
proof -
  let ?r = "start (quiet\<lparr>variables := [], is_aborted := True\<rparr>)"
  have h1: "aborted scripted (signal main_street) (world ?r)"
    by (simp add: main_street_def start_def quiet_def)
  have h2: "env_var scripted (world ?r) (js ''PERPLEXITY_API_KEY'') = None"
    by (simp add: scripted_def start_def quiet_def)
  from abort_check_precedes_credential_check [OF h1 disjI1 [OF h2]] h1 h2
  show ?thesis by simp
qed

end
